theory Spec2Isabelle
  imports Complex_Main
begin

section \<open>Python values, exceptions and string primitives\<close>

text \<open>
  The module \<^verbatim>\<open>orbkit/read.py\<close> is Python 2. Every exception the modelled code can raise is a
  value of \<open>error\<close>; a computation that may raise returns \<open>error + 'a\<close> with \<open>Inl\<close> for
  the exception. \<open>IOError\<close> carries its message, \<open>KeyError\<close> the missing key. \<open>NameError\<close>
  stands for reading a local variable that no earlier statement has bound.

  Numbers that Python holds as double-precision floats are idealised as \<open>real\<close>: the
  results below are about which values are stored and which factor is applied, not about
  rounding. The builtin \<^verbatim>\<open>float(s)\<close> is a parameter \<open>pfloat :: string \<Rightarrow> real option\<close>
  (\<open>None\<close> is its \<^verbatim>\<open>ValueError\<close>).
\<close>

datatype error =
    IOError string
  | IndexError
  | KeyError string
  | ValueError
  | NameError
  | AttributeError
  | EOFError

definition bindE :: "error + 'a \<Rightarrow> ('a \<Rightarrow> error + 'b) \<Rightarrow> error + 'b" where
  "bindE r f = (case r of Inl e \<Rightarrow> Inl e | Inr v \<Rightarrow> f v)"

text \<open>\<^verbatim>\<open>xs[i]\<close> on a Python list: a negative index counts from the end.\<close>

definition item :: "'a list \<Rightarrow> int \<Rightarrow> error + 'a" where
  "item xs i =
     (if 0 \<le> i \<and> i < int (length xs) then Inr (xs ! nat i)
      else if i < 0 \<and> - int (length xs) \<le> i then Inr (xs ! nat (int (length xs) + i))
      else Inl IndexError)"

text \<open>\<^verbatim>\<open>sub in s\<close> on strings.\<close>

fun contains :: "string \<Rightarrow> string \<Rightarrow> bool" where
  "contains sub [] = (sub = [])"
| "contains sub (c # cs) = (take (length sub) (c # cs) = sub \<or> contains sub cs)"

text \<open>\<^verbatim>\<open>s.split()\<close>: the maximal runs of characters that are not white space.\<close>

definition is_space :: "char \<Rightarrow> bool" where
  "is_space c = (c \<in> set [CHR '' '', CHR 0x09, CHR 0x0A, CHR 0x0B, CHR 0x0C, CHR 0x0D])"

fun tokens :: "string \<Rightarrow> string \<Rightarrow> string list" where
  "tokens cur [] = (if cur = [] then [] else [rev cur])"
| "tokens cur (c # cs) =
     (if is_space c then (if cur = [] then tokens [] cs else rev cur # tokens [] cs)
      else tokens (c # cur) cs)"

definition split_ws :: "string \<Rightarrow> string list" where
  "split_ws s = tokens [] s"

text \<open>\<^verbatim>\<open>s.lower()\<close> on a byte string (in the C locale: the letters A to Z only).\<close>

definition lower_char :: "char \<Rightarrow> char" where
  "lower_char c =
     (case map_of (zip ''ABCDEFGHIJKLMNOPQRSTUVWXYZ'' ''abcdefghijklmnopqrstuvwxyz'') c of
        None \<Rightarrow> c
      | Some d \<Rightarrow> d)"

definition lower :: "string \<Rightarrow> string" where
  "lower s = map lower_char s"

text \<open>\<^verbatim>\<open>'%d' % n\<close>: the decimal digits of an integer.\<close>

fun show_nat :: "nat \<Rightarrow> string" where
  "show_nat n =
     (if n < 10 then [''0123456789'' ! n]
      else show_nat (n div 10) @ [''0123456789'' ! (n mod 10)])"

declare show_nat.simps [simp del]

definition show_int :: "int \<Rightarrow> string" where
  "show_int i = (if i < 0 then CHR ''-'' # show_nat (nat (- i)) else show_nat (nat i))"

text \<open>
  What the module takes from outside: the builtins \<^verbatim>\<open>float\<close> and \<^verbatim>\<open>int\<close> on strings
  (\<open>None\<close>: \<^verbatim>\<open>ValueError\<close>), and from \<^verbatim>\<open>orbkit.core\<close>, which is not among the sources,
  the dict \<^verbatim>\<open>lquant\<close> from shell letters to angular-momentum quantum numbers (\<open>None\<close>:
  \<^verbatim>\<open>KeyError\<close>), the function \<^verbatim>\<open>l_deg\<close> from a quantum number to the number of basis
  functions of a shell, and the string \<^verbatim>\<open>orbit\<close> of shell letters. They are parameters of
  the model, collected in one record.
\<close>

record env =
  pfloat :: "string \<Rightarrow> real option"
  pint :: "string \<Rightarrow> int option"
  lquant :: "string \<Rightarrow> nat option"
  l_deg :: "nat \<Rightarrow> nat"
  orbit :: string

definition to_float :: "env \<Rightarrow> string \<Rightarrow> error + real" where
  "to_float E s = (case pfloat E s of None \<Rightarrow> Inl ValueError | Some v \<Rightarrow> Inr v)"

definition to_int :: "env \<Rightarrow> string \<Rightarrow> error + int" where
  "to_int E s = (case pint E s of None \<Rightarrow> Inl ValueError | Some v \<Rightarrow> Inr v)"

text \<open>\<^verbatim>\<open>l_deg(lquant[t])\<close>, the degeneracy of a shell type.\<close>

definition degeneracy :: "env \<Rightarrow> string \<Rightarrow> error + nat" where
  "degeneracy E t = (case lquant E t of None \<Rightarrow> Inl (KeyError t) | Some l \<Rightarrow> Inr (l_deg E l))"

section \<open>The data model\<close>

text \<open>
  A molecular orbital is a Python dict with the keys \<^verbatim>\<open>coeffs\<close>, \<^verbatim>\<open>energy\<close>,
  \<^verbatim>\<open>occ_num\<close> and \<^verbatim>\<open>sym\<close>. The molden and gaussian.log parsers create it without
  \<^verbatim>\<open>energy\<close> or \<^verbatim>\<open>occ_num\<close>, so these two fields are optional (\<open>None\<close>: key absent).
\<close>

record mo =
  coeffs :: "real list"
  energy :: "real option"
  occ_num :: "real option"
  sym :: string

section \<open>The format dispatcher\<close>

text \<open>
  \<^verbatim>\<open>main_read\<close> (lines 33-63) looks the format tag up in a dict literal of the four readers
  and calls the reader found; a tag that is not a key raises \<^verbatim>\<open>KeyError\<close> from the
  subscription, before any call. The four readers are parameters here, so that the result
  for an unknown tag visibly does not depend on them. The first component of the result is
  what was passed to \<^verbatim>\<open>display\<close>.
\<close>

definition reader ::
  "(string \<Rightarrow> bool \<Rightarrow> 'r) \<Rightarrow> (string \<Rightarrow> bool \<Rightarrow> 'r) \<Rightarrow> (string \<Rightarrow> bool \<Rightarrow> 'r) \<Rightarrow>
   (string \<Rightarrow> bool \<Rightarrow> 'r) \<Rightarrow> string \<Rightarrow> (string \<Rightarrow> bool \<Rightarrow> 'r) option" where
  "reader rd_molden rd_gamess rd_gaussian_log rd_gaussian_fchk =
     [''molden'' \<mapsto> rd_molden,
      ''gamess'' \<mapsto> rd_gamess,
      ''gaussian.log'' \<mapsto> rd_gaussian_log,
      ''gaussian.fchk'' \<mapsto> rd_gaussian_fchk]"

definition main_read ::
  "(string \<Rightarrow> bool \<Rightarrow> 'r) \<Rightarrow> (string \<Rightarrow> bool \<Rightarrow> 'r) \<Rightarrow> (string \<Rightarrow> bool \<Rightarrow> 'r) \<Rightarrow>
   (string \<Rightarrow> bool \<Rightarrow> 'r) \<Rightarrow> string \<Rightarrow> string \<Rightarrow> bool \<Rightarrow> string list \<times> (error + 'r)" where
  "main_read rd_molden rd_gamess rd_gaussian_log rd_gaussian_fchk filename itype all_mo =
     (let shown = [''Opened \<newline>'' @ [CHR 0x09] @ filename @ ''\<newline>'',
                   ''Loading '' @ itype @ '' file...'']
      in case reader rd_molden rd_gamess rd_gaussian_log rd_gaussian_fchk itype of
           None \<Rightarrow> (shown, Inl (KeyError itype))
         | Some f \<Rightarrow> (shown, Inr (f filename all_mo)))"

section \<open>The gamess parser: occupation numbers\<close>

text \<open>
  Lines 468-480 of \<^verbatim>\<open>read_gamess\<close>. \<^verbatim>\<open>occ\<close> is the list of the occupied-orbital counts
  read from the file (alpha first). The loop body is three \<^verbatim>\<open>if\<close> statements in
  sequence, not an \<^verbatim>\<open>if/elif\<close> chain: each tests the counters as the one before left
  them. \<^verbatim>\<open>and\<close> evaluates its right operand only when the left one is true, which
  decides whether \<^verbatim>\<open>occ[1]\<close> or \<^verbatim>\<open>occ[0]\<close> can raise. The two \<^verbatim>\<open>print\<close> statements
  (to standard output) are left out.
\<close>

definition occ_add :: "mo \<Rightarrow> real \<Rightarrow> error + mo" where
  "occ_add m x =
     (case occ_num m of
        None \<Rightarrow> Inl (KeyError ''occ_num'')
      | Some v \<Rightarrow> Inr (m\<lparr>occ_num := Some (v + x)\<rparr>))"

definition occ_if_both :: "int list \<times> mo \<Rightarrow> error + (int list \<times> mo)" where
  "occ_if_both = (\<lambda>(occ, m).
     bindE (item occ 0) (\<lambda>a.
       if a = 0 then Inr (occ, m)
       else bindE (item occ 1) (\<lambda>b.
         if b = 0 then Inr (occ, m)
         else bindE (occ_add m 2) (\<lambda>m'. Inr (occ[0 := a - 1, 1 := b - 1], m')))))"

definition occ_if_beta :: "int list \<times> mo \<Rightarrow> error + (int list \<times> mo)" where
  "occ_if_beta = (\<lambda>(occ, m).
     bindE (item occ 0) (\<lambda>a.
       if a \<noteq> 0 then Inr (occ, m)
       else bindE (item occ 1) (\<lambda>b.
         if b = 0 then Inr (occ, m)
         else bindE (occ_add m 1) (\<lambda>m'. Inr (occ[1 := b - 1], m')))))"

definition occ_if_alpha :: "int list \<times> mo \<Rightarrow> error + (int list \<times> mo)" where
  "occ_if_alpha = (\<lambda>(occ, m).
     bindE (item occ 1) (\<lambda>b.
       if b \<noteq> 0 then Inr (occ, m)
       else bindE (item occ 0) (\<lambda>a.
         if a = 0 then Inr (occ, m)
         else bindE (occ_add m 1) (\<lambda>m'. Inr (occ[0 := a - 1], m')))))"

definition gamess_occ_body :: "int list \<Rightarrow> mo \<Rightarrow> error + (int list \<times> mo)" where
  "gamess_occ_body occ m =
     bindE (occ_if_both (occ, m)) (\<lambda>s1. bindE (occ_if_beta s1) occ_if_alpha)"

fun gamess_occ_loop :: "int list \<Rightarrow> mo list \<Rightarrow> error + (int list \<times> mo list)" where
  "gamess_occ_loop occ [] = Inr (occ, [])"
| "gamess_occ_loop occ (m # ms) =
     bindE (gamess_occ_body occ m) (\<lambda>(occ', m').
       bindE (gamess_occ_loop occ' ms) (\<lambda>(occ'', ms'). Inr (occ'', m' # ms')))"

text \<open>An orbital as the gamess parser creates it (line 371).\<close>

definition gamess_new_mo :: mo where
  "gamess_new_mo = \<lparr>coeffs = [], energy = Some 0, occ_num = Some 0, sym = ''''\<rparr>"

section \<open>The gaussian.log parser: census and selection\<close>

text \<open>
  \<^verbatim>\<open>check_sel\<close> (lines 735-751), the nested function that resolves a requested index
  against a census count. A count of zero raises \<^verbatim>\<open>IndexError\<close> outside the \<^verbatim>\<open>try\<close>; a
  count of one selects element 0 whatever was requested. Otherwise \<^verbatim>\<open>range(count)[i]\<close>
  resolves the index as Python does, and an \<^verbatim>\<open>IndexError\<close> or \<^verbatim>\<open>ValueError\<close> inside the
  \<^verbatim>\<open>try\<close> becomes an \<^verbatim>\<open>IOError\<close> with the prompt as message. In interactive mode the
  index is read with \<^verbatim>\<open>raw_input\<close>: the lines the user will type are the list \<open>replies\<close>
  (none left: \<^verbatim>\<open>EOFError\<close>), and the rest of them is returned with the index. The calls of
  \<^verbatim>\<open>display\<close> in this part are left out.
\<close>

definition check_sel ::
  "env \<Rightarrow> string list \<Rightarrow> nat \<Rightarrow> int \<Rightarrow> bool \<Rightarrow> error + (int \<times> string list)" where
  "check_sel E replies count i interactive =
     (if count = 0 then Inl IndexError
      else if count = 1 then Inr (0, replies)
      else
        let message = [CHR 0x09] @ ''Please give an integer from 0 to '' @
                        show_int (int count - 1) @ '': '';
            asked = (if interactive then
                       (case replies of
                          [] \<Rightarrow> Inl EOFError
                        | r # rest \<Rightarrow> bindE (to_int E r) (\<lambda>v. Inr (v, rest)))
                     else Inr (i, replies));
            tried = bindE asked (\<lambda>(j, rest).
                      bindE (item (map int [0..<count]) j) (\<lambda>k. Inr (k, rest)))
        in case tried of
             Inl IndexError \<Rightarrow> Inl (IOError (map (\<lambda>c. if c = CHR '':'' then CHR ''!'' else c) message))
           | Inl ValueError \<Rightarrow> Inl (IOError (map (\<lambda>c. if c = CHR '':'' then CHR ''!'' else c) message))
           | Inl e \<Rightarrow> Inl e
           | Inr v \<Rightarrow> Inr v)"

text \<open>
  The first pass over the file (lines 732-777) counts the sections. \<^verbatim>\<open>count\<close> is a dict
  with five fixed keys, here a record.
\<close>

record census =
  geometry :: nat
  geometry_input :: nat
  atomic_orbitals :: nat
  molecular_orbitals :: "string list"
  electronic_state :: "string list"

definition census_init :: census where
  "census_init = \<lparr>geometry = 0, geometry_input = 0, atomic_orbitals = 0,
                   molecular_orbitals = [], electronic_state = []\<rparr>"

text \<open>The test \<^verbatim>\<open>'%s orientation:' % orientation in line.lower()\<close> of both passes.\<close>

definition is_geo_header :: "string \<Rightarrow> string \<Rightarrow> bool" where
  "is_geo_header orientation line = contains (orientation @ '' orientation:'') (lower line)"

definition census_step :: "string \<Rightarrow> census \<Rightarrow> string \<Rightarrow> error + census" where
  "census_step orientation count line =
     (let thisline = split_ws line in
      if contains '' orientation:'' line then
        (let c1 = (if is_geo_header orientation line
                   then count\<lparr>geometry := geometry count + 1\<rparr> else count)
         in Inr (if contains ''input orientation:'' (lower line)
                 then c1\<lparr>geometry_input := geometry_input c1 + 1\<rparr> else c1))
      else if contains ''Standard basis:'' line \<or> contains ''General basis read from cards:'' line then
        (if \<not> contains ''(6D, 10F)'' line
         then Inl (IOError ''Please apply a Cartesian Gaussian Basis Sets (6D, 10F)!'')
         else Inr count)
      else if contains ''AO basis set'' line then
        Inr (count\<lparr>atomic_orbitals := atomic_orbitals count + 1\<rparr>)
      else if contains ''The electronic state is '' line then
        bindE (item thisline (- 1)) (\<lambda>t.
          Inr (count\<lparr>electronic_state := electronic_state count @ [butlast t]\<rparr>))
      else if contains ''Orbital Coefficients:'' line then
        bindE (item thisline 0) (\<lambda>mo_type.
          if mo_type \<noteq> ''Beta''
          then Inr (count\<lparr>molecular_orbitals := molecular_orbitals count @ [mo_type]\<rparr>)
          else if molecular_orbitals count = [] then Inl IndexError
          else Inr (count\<lparr>molecular_orbitals :=
                      (molecular_orbitals count)
                        [length (molecular_orbitals count) - 1 := ''Alpha&Beta'']\<rparr>))
      else Inr count)"

fun census_loop :: "string \<Rightarrow> census \<Rightarrow> string list \<Rightarrow> error + census" where
  "census_loop orientation count [] = Inr count"
| "census_loop orientation count (line # flines) =
     bindE (census_step orientation count line) (\<lambda>c. census_loop orientation c flines)"

text \<open>
  The selection of the geometry section (lines 782-794): the requested orientation first;
  when the census found none of it, the count of the input orientation and the orientation
  \<^verbatim>\<open>input\<close>; when that is zero too, \<^verbatim>\<open>IOError\<close>. The result is the orientation the
  second pass will look for, the resolved index and the replies left.
\<close>

definition select_geo ::
  "env \<Rightarrow> string list \<Rightarrow> census \<Rightarrow> string \<Rightarrow> int \<Rightarrow> bool \<Rightarrow>
   error + (string \<times> int \<times> string list)" where
  "select_geo E replies count orientation i_geo interactive =
     (case check_sel E replies (geometry count) i_geo interactive of
        Inr (i, rest) \<Rightarrow> Inr (orientation, i, rest)
      | Inl IndexError \<Rightarrow>
          (case check_sel E replies (geometry_input count) i_geo interactive of
             Inr (i, rest) \<Rightarrow> Inr (''input'', i, rest)
           | Inl IndexError \<Rightarrow>
               Inl (IOError (''Found no geometry section!'' @
                             '' Are you sure this is a GAUSSIAN .log file?''))
           | Inl e \<Rightarrow> Inl e)
      | Inl e \<Rightarrow> Inl e)"

text \<open>
  The selection of the atomic-orbital and molecular-orbital sections (lines 797-817). The
  \<^verbatim>\<open>try\<close> around the second message only holds a call of \<^verbatim>\<open>display\<close>; the call of
  \<^verbatim>\<open>check_sel\<close> for the molecular orbitals stands outside it, so its \<^verbatim>\<open>IndexError\<close> is
  not caught.
\<close>

definition select_ao ::
  "env \<Rightarrow> string list \<Rightarrow> census \<Rightarrow> int \<Rightarrow> bool \<Rightarrow> error + (int \<times> string list)" where
  "select_ao E replies count i_ao interactive =
     (case check_sel E replies (atomic_orbitals count) i_ao interactive of
        Inl IndexError \<Rightarrow>
          Inl (IOError (''Write GFINPUT in your GAUSSIAN route section to print'' @
                        '' the basis set information!''))
      | r \<Rightarrow> r)"

definition select_mo ::
  "env \<Rightarrow> string list \<Rightarrow> census \<Rightarrow> int \<Rightarrow> bool \<Rightarrow> error + (int \<times> string list)" where
  "select_mo E replies count i_mo interactive =
     check_sel E replies (length (molecular_orbitals count)) i_mo interactive"

text \<open>
  The second pass opens the geometry section at the line on which its counter \<^verbatim>\<open>c_geo\<close>
  equals the resolved index (lines 842-850). The test for the orientation keyword is the
  first of the chain, so \<^verbatim>\<open>c_geo\<close> counts exactly the lines that contain it. The function
  returns the numbers of the lines at which the section is opened, from counter \<open>c_geo\<close>
  and line number \<open>il\<close> on.
\<close>

fun geo_opened :: "string \<Rightarrow> int \<Rightarrow> nat \<Rightarrow> nat \<Rightarrow> string list \<Rightarrow> nat list" where
  "geo_opened orientation i_geo c_geo il [] = []"
| "geo_opened orientation i_geo c_geo il (line # flines) =
     (if is_geo_header orientation line
      then (if i_geo = int c_geo then [il] else []) @
           geo_opened orientation i_geo (c_geo + 1) (il + 1) flines
      else geo_opened orientation i_geo c_geo (il + 1) flines)"

section \<open>Results\<close>

subsection \<open>Dispatcher\<close>

text \<open>
  Claim C9. For each of the four tags \<^verbatim>\<open>molden\<close>, \<^verbatim>\<open>gamess\<close>, \<^verbatim>\<open>gaussian.log\<close> and
  \<^verbatim>\<open>gaussian.fchk\<close> the dispatcher returns exactly what the matching reader returns for
  the file name and the \<^verbatim>\<open>all_mo\<close> flag; for every other tag it fails with the
  \<^verbatim>\<open>KeyError\<close> of the lookup (the spec's UnsupportedFormat), whatever the four readers
  are, so none of them is called.
\<close>

theorem main_read_dispatch:
  "snd (main_read rm rg rl rf filename itype all_mo) =
     (if itype = ''molden'' then Inr (rm filename all_mo)
      else if itype = ''gamess'' then Inr (rg filename all_mo)
      else if itype = ''gaussian.log'' then Inr (rl filename all_mo)
      else if itype = ''gaussian.fchk'' then Inr (rf filename all_mo)
      else Inl (KeyError itype))"
  by (simp add: main_read_def reader_def)

subsection \<open>Occupation numbers of the gamess parser\<close>

lemma gamess_occ_body_closed:
  assumes "0 < n"
  shows "gamess_occ_body [n, n] m =
           bindE (occ_add m 2) (\<lambda>m'. Inr ([n - 1, n - 1], m'))"
  using assms
  by (cases "occ_num m")
     (auto simp: gamess_occ_body_def occ_if_both_def occ_if_beta_def occ_if_alpha_def
        bindE_def item_def occ_add_def)

lemma gamess_occ_body_zero:
  "gamess_occ_body [0, 0] m = Inr ([0, 0], m)"
  by (simp add: gamess_occ_body_def occ_if_both_def occ_if_beta_def occ_if_alpha_def
        bindE_def item_def)

text \<open>
  Claim C3. With two alpha and one beta electron the first orbital receives the occupation
  3.0 and the second 0.0: after the first \<^verbatim>\<open>if\<close> has used up the beta counter, the third
  \<^verbatim>\<open>if\<close> fires in the same iteration and adds 1.0 to the same orbital. The claim asks for
  2.0 and then 1.0.
\<close>

theorem gamess_occ_open_shell:
  "gamess_occ_loop [2, 1] [gamess_new_mo, gamess_new_mo] =
     Inr ([0, 0], [gamess_new_mo\<lparr>occ_num := Some 3\<rparr>, gamess_new_mo])"
  by (simp add: gamess_occ_body_def occ_if_both_def occ_if_beta_def occ_if_alpha_def
        bindE_def item_def occ_add_def gamess_new_mo_def)

end
